theory Spec2Isabelle
  imports Main
begin

section \<open>Data model of first\_look.py\<close>

text \<open>
  The module is written for Python 2 and the numpy of its time: \<^verbatim>\<open>sampling/2\<close> on
  integers is floor division, and \<^verbatim>\<open>True - mask\<close> on a boolean array is the
  element-wise negation. The embedding follows these semantics.

  A floating-point sample is either a finite number, one of the two infinities, or
  not-a-number. The payload of a finite sample is left abstract: no theorem below depends
  on rounding.
\<close>

datatype 'v flt = Fin 'v | PInf | NInf | NaN

fun isfinite :: "'v flt \<Rightarrow> bool" where
  "isfinite (Fin _) = True"
| "isfinite _ = False"

fun isnan :: "'v flt \<Rightarrow> bool" where
  "isnan NaN = True"
| "isnan _ = False"

text \<open>Data arrays are floating point; a mask array may carry any dtype.\<close>

datatype fdtype = Float32 | Float64

datatype dtype = Bool | Int64 | Floating fdtype

text \<open>numpy's type promotion of a binary operation on two floating arrays.\<close>

fun result_type :: "fdtype \<Rightarrow> fdtype \<Rightarrow> fdtype" where
  "result_type Float32 Float32 = Float32"
| "result_type _ _ = Float64"

text \<open>A one-dimensional ndarray: its dtype and its samples.\<close>

record 'v ndarray =
  dt :: fdtype
  vals :: "'v flt list"

text \<open>
  The first component of the argument pair of \<^verbatim>\<open>blfunc\<close> is either a plain array or a
  numpy masked array (\<^verbatim>\<open>hasattr(yfit,'mask')\<close>), whose mask is \<open>True\<close> at excluded samples.
\<close>

datatype 'v spectrum = Plain "'v ndarray" | MaskedArray "'v ndarray" "bool list"

datatype error =
    ValueError string
  | TypeError string
  | NameError string
  | ZeroDivisionError string
  | IndexError string
  | LinAlgError string

text \<open>
  The numerical routines of numpy and scipy that \<^verbatim>\<open>blfunc\<close> calls are parameters of the
  model. \<open>np_polyval\<close> and \<open>spl_call\<close> evaluate a fitted model at one abscissa (both
  library routines work element by element); \<open>np_astype\<close> converts one value to a dtype;
  \<open>np_subtract\<close> and \<open>np_mean\<close> compute in the given dtype; \<open>np_float\<close> is the
  conversion of an index made by \<^verbatim>\<open>np.arange(n, dtype=d)\<close>.

  The names \<^verbatim>\<open>scipyOK\<close> and \<^verbatim>\<open>UnivariateSpline\<close> are used by \<^verbatim>\<open>blfunc\<close> but bound
  nowhere in the module. \<open>scipyOK\<close> is therefore \<open>None\<close> when the name is unbound (reading
  it raises NameError) and \<open>Some b\<close> when the module's globals bind it to \<open>b\<close>. The
  module as it stands is the case \<open>None\<close>.
\<close>

record ('v, 'p, 's) numlib =
  np_mean :: "fdtype \<Rightarrow> 'v flt list \<Rightarrow> 'v flt"
  np_polyfit :: "'v flt list \<Rightarrow> 'v flt list \<Rightarrow> int \<Rightarrow> error + 'p"
  np_polyval :: "'p \<Rightarrow> 'v flt \<Rightarrow> 'v flt"
  np_astype :: "fdtype \<Rightarrow> 'v flt \<Rightarrow> 'v flt"
  np_subtract :: "fdtype \<Rightarrow> 'v flt \<Rightarrow> 'v flt \<Rightarrow> 'v flt"
  np_float :: "fdtype \<Rightarrow> nat \<Rightarrow> 'v flt"
  scipyOK :: "bool option"
  UnivariateSpline :: "'v flt list \<Rightarrow> 'v flt list \<Rightarrow> int \<Rightarrow> error + 's"
  spl_call :: "'s \<Rightarrow> 'v flt \<Rightarrow> 'v flt"

section \<open>Array primitives\<close>

text \<open>\<^verbatim>\<open>a[m]\<close> with a boolean array \<open>m\<close>: the elements of \<open>a\<close> where \<open>m\<close> is true.\<close>

definition bool_index :: "'a list \<Rightarrow> bool list \<Rightarrow> 'a list" where
  "bool_index a m = map fst (filter snd (zip a m))"

definition count_nonzero :: "bool list \<Rightarrow> nat" where
  "count_nonzero m = length (filter (\<lambda>b. b) m)"

text \<open>
  \<^verbatim>\<open>a[start:stop:step]\<close> for non-negative bounds and a positive step: the stop is
  clipped to the length, and the slice has \<open>\<lceil>(stop - start) / step\<rceil>\<close> elements (none when
  \<open>start \<ge> stop\<close>).
\<close>

definition slice :: "'a list \<Rightarrow> nat \<Rightarrow> nat \<Rightarrow> nat \<Rightarrow> 'a list" where
  "slice a start stop step =
     (let stop' = min stop (length a)
      in map (\<lambda>j. a ! (start + j * step)) [0..<(stop' - start + step - 1) div step])"

text \<open>\<^verbatim>\<open>np.mean(groups, axis=0)\<close> on a list of equally long rows: the mean of each column.\<close>

definition mean_axis0 :: "('v flt list \<Rightarrow> 'v flt) \<Rightarrow> 'v flt list list \<Rightarrow> 'v flt list" where
  "mean_axis0 mean groups =
     (case groups of
        [] \<Rightarrow> []
      | g # _ \<Rightarrow> map (\<lambda>j. mean (map (\<lambda>r. r ! j) groups)) [0..<length g])"

text \<open>
  \<^verbatim>\<open>a - b\<close> on one-dimensional arrays, with numpy's broadcasting of a length-one
  operand; the result has the promoted dtype.
\<close>

definition ndarray_sub ::
  "('v, 'p, 's) numlib \<Rightarrow> 'v ndarray \<Rightarrow> 'v ndarray \<Rightarrow> error + 'v ndarray" where
  "ndarray_sub lib a b =
     (let d = result_type (dt a) (dt b); f = np_subtract lib d
      in if length (vals a) = length (vals b)
         then Inr \<lparr>dt = d, vals = map2 f (vals a) (vals b)\<rparr>
         else if length (vals b) = 1
         then Inr \<lparr>dt = d, vals = map (\<lambda>u. f u (hd (vals b))) (vals a)\<rparr>
         else if length (vals a) = 1
         then Inr \<lparr>dt = d, vals = map (\<lambda>w. f (hd (vals a)) w) (vals b)\<rparr>
         else Inl (ValueError ''operands could not be broadcast together''))"

section \<open>The per-spectrum fit function\<close>

definition good_mask :: "'v spectrum \<Rightarrow> bool list" where
  "good_mask yfit =
     (case yfit of
        MaskedArray a m \<Rightarrow> map Not m
      | Plain a \<Rightarrow> map isfinite (vals a))"

definition data_of :: "'v spectrum \<Rightarrow> 'v ndarray" where
  "data_of yfit = (case yfit of MaskedArray a m \<Rightarrow> a | Plain a \<Rightarrow> a)"

text \<open>
  The y-values handed to the fit, for a positive sampling \<open>s\<close>:
  \<^verbatim>\<open>np.mean([yfit[mask][ii:endpoint:sampling] for ii in range(sampling)], axis=0)\<close>.
\<close>

definition fit_y ::
  "('v, 'p, 's) numlib \<Rightarrow> 'v ndarray \<Rightarrow> bool list \<Rightarrow> nat \<Rightarrow> nat \<Rightarrow> 'v flt list" where
  "fit_y lib yf msk ngood s =
     (let endpoint = ngood - ngood mod s
      in mean_axis0 (np_mean lib (dt yf))
           (map (\<lambda>ii. slice (bool_index (vals yf) msk) ii endpoint s) [0..<s]))"

text \<open>The x-values handed to the fit: \<^verbatim>\<open>x[mask][sampling/2:endpoint:sampling]\<close>.\<close>

definition fit_x :: "'v ndarray \<Rightarrow> bool list \<Rightarrow> nat \<Rightarrow> nat \<Rightarrow> 'v flt list" where
  "fit_x x msk ngood s =
     (let endpoint = ngood - ngood mod s
      in slice (bool_index (vals x) msk) (s div 2) endpoint s)"

text \<open>\<^verbatim>\<open>yreal - np.polyval(polypars, x).astype(yreal.dtype)\<close>\<close>

definition poly_subtract ::
  "('v, 'p, 's) numlib \<Rightarrow> 'v ndarray \<Rightarrow> 'v ndarray \<Rightarrow> 'p \<Rightarrow> error + 'v ndarray" where
  "poly_subtract lib yreal x polypars =
     ndarray_sub lib yreal
       \<lparr>dt = dt yreal,
        vals = map (\<lambda>u. np_astype lib (dt yreal) (np_polyval lib polypars u)) (vals x)\<rparr>"

text \<open>\<^verbatim>\<open>yreal - spl(x)\<close>; scipy evaluates a spline in double precision.\<close>

definition spline_subtract ::
  "('v, 'p, 's) numlib \<Rightarrow> 'v ndarray \<Rightarrow> 'v ndarray \<Rightarrow> 's \<Rightarrow> error + 'v ndarray" where
  "spline_subtract lib yreal x spl =
     ndarray_sub lib yreal \<lparr>dt = Float64, vals = map (spl_call lib spl) (vals x)\<rparr>"

text \<open>
  The polynomial branch once \<open>ngood > polyorder\<close>. A zero sampling fails at
  \<^verbatim>\<open>ngood % sampling\<close>. With a negative sampling \<^verbatim>\<open>range(sampling)\<close> is empty, the mean
  of the empty list is a scalar, and \<^verbatim>\<open>np.polyfit\<close> rejects its arguments. Indexing \<open>x\<close>
  with a boolean mask of another length is an IndexError.
\<close>

definition poly_branch ::
  "('v, 'p, 's) numlib \<Rightarrow> 'v ndarray \<Rightarrow> 'v ndarray \<Rightarrow> 'v ndarray \<Rightarrow> bool list \<Rightarrow> nat
     \<Rightarrow> int \<Rightarrow> int \<Rightarrow> error + 'v ndarray" where
  "poly_branch lib yf yreal x msk ngood polyorder sampling =
     (if sampling = 0 then Inl (ZeroDivisionError ''integer division or modulo by zero'')
      else if length (vals x) \<noteq> length msk
      then Inl (IndexError ''boolean index did not match indexed array'')
      else if sampling < 0
      then (if polyorder < 0 then Inl (ValueError ''expected deg >= 0'')
            else Inl (TypeError ''polyfit: unusable x or y''))
      else (case np_polyfit lib (fit_x x msk ngood (nat sampling))
                   (fit_y lib yf msk ngood (nat sampling)) polyorder of
              Inl e \<Rightarrow> Inl e
            | Inr polypars \<Rightarrow> poly_subtract lib yreal x polypars))"

text \<open>
  The spline branch once the order is in range and \<open>ngood > splineorder\<close>. With a
  negative sampling \<open>y\<close> is a scalar and \<^verbatim>\<open>len(y)\<close> is a TypeError.
\<close>

definition spline_branch ::
  "('v, 'p, 's) numlib \<Rightarrow> 'v ndarray \<Rightarrow> 'v ndarray \<Rightarrow> 'v ndarray \<Rightarrow> bool list \<Rightarrow> nat
     \<Rightarrow> int \<Rightarrow> int \<Rightarrow> error + 'v ndarray" where
  "spline_branch lib yf yreal x msk ngood splineorder sampling =
     (if sampling = 0 then Inl (ZeroDivisionError ''integer division or modulo by zero'')
      else if sampling < 0 then Inl (TypeError ''object of type numpy.float64 has no len()'')
      else if int (length (fit_y lib yf msk ngood (nat sampling))) \<le> splineorder
      then Inl (ValueError
             ''Sampling is too sparse.  Use finer sampling or decrease the spline order.'')
      else if length (vals x) \<noteq> length msk
      then Inl (IndexError ''boolean index did not match indexed array'')
      else (case UnivariateSpline lib (fit_x x msk ngood (nat sampling))
                   (fit_y lib yf msk ngood (nat sampling)) splineorder of
              Inl e \<Rightarrow> Inl e
            | Inr spl \<Rightarrow> spline_subtract lib yreal x spl))"

text \<open>
  The x-axis of a call: the \<open>x\<close> given to the generator, or
  \<^verbatim>\<open>np.arange(yfit.size, dtype=yfit.dtype)\<close> when it is \<open>None\<close>.
\<close>

definition xaxis :: "('v, 'p, 's) numlib \<Rightarrow> 'v ndarray option \<Rightarrow> 'v ndarray \<Rightarrow> 'v ndarray" where
  "xaxis lib x0 yf =
     (case x0 of
        None \<Rightarrow> \<lparr>dt = dt yf, vals = map (np_float lib (dt yf)) [0..<length (vals yf)]\<rparr>
      | Some x' \<Rightarrow> x')"

text \<open>
  \<^verbatim>\<open>blfunc\<close>, the closure returned by \<^verbatim>\<open>blfunc_generator(x, polyorder, splineorder,
  sampling)\<close>, applied to \<open>args = (yfit, yreal)\<close>.
\<close>

definition blfunc ::
  "('v, 'p, 's) numlib \<Rightarrow> 'v ndarray option \<Rightarrow> int option \<Rightarrow> int option \<Rightarrow> int
     \<Rightarrow> 'v spectrum \<times> 'v ndarray \<Rightarrow> error + 'v ndarray" where
  "blfunc lib x0 polyorder splineorder sampling args =
     (let yfit = fst args; yreal = snd args;
          msk = good_mask yfit;
          yf = data_of yfit;
          x = xaxis lib x0 yf;
          ngood = count_nonzero msk
      in case polyorder of
           Some p \<Rightarrow>
             if int ngood \<le> p then Inr yreal
             else poly_branch lib yf yreal x msk ngood p sampling
         | None \<Rightarrow>
             (case splineorder of
                None \<Rightarrow> Inl (ValueError ''Must provide polyorder or splineorder'')
              | Some k \<Rightarrow>
                  (case scipyOK lib of
                     None \<Rightarrow> Inl (NameError ''scipyOK'')
                   | Some False \<Rightarrow> Inl (ValueError ''Must provide polyorder or splineorder'')
                   | Some True \<Rightarrow>
                       if k < 1 \<or> k > 4
                       then Inl (ValueError ''Spline order must be in {1,2,3,4}'')
                       else if int ngood \<le> k then Inr yreal
                       else spline_branch lib yf yreal x msk ngood k sampling)))"

text \<open>The number of good samples, as \<^verbatim>\<open>blfunc\<close> counts them.\<close>

definition ngood_of :: "'v spectrum \<Rightarrow> nat" where
  "ngood_of yfit = count_nonzero (good_mask yfit)"

section \<open>The cube driver\<close>

text \<open>
  Arrays that the driver shares or mutates live in an explicit store: a heap is the list
  of the data buffers allocated so far, and an address is an index into it. A cube is a
  contiguous three-dimensional array (spectral axis first) over one buffer, in row-major
  order; a view made by \<^verbatim>\<open>reshape\<close> or \<^verbatim>\<open>.T\<close> reads the same buffer.
\<close>

type_synonym 'v heap = "'v flt list list"

record cube =
  cbuf :: nat
  cdtype :: fdtype
  cshape :: "nat \<times> nat \<times> nat"

record cubemask =
  mdtype :: dtype
  mshape :: "nat list"
  mdata :: "bool list"

definition alloc :: "'v heap \<Rightarrow> 'v flt list \<Rightarrow> nat \<times> 'v heap" where
  "alloc h b = (length h, h @ [b])"

text \<open>
  \<^verbatim>\<open>a.reshape(S, P).T\<close> iterated over its first axis: row \<open>p\<close> is the spectrum of
  pixel \<open>p\<close>, whose sample at channel \<open>c\<close> sits at \<open>c * P + p\<close> in the buffer.
\<close>

definition reshape_T :: "fdtype \<Rightarrow> nat \<Rightarrow> nat \<Rightarrow> 'v flt list \<Rightarrow> 'v ndarray list" where
  "reshape_T d S P flat =
     map (\<lambda>p. \<lparr>dt = d, vals = map (\<lambda>c. flat ! (c * P + p)) [0..<S]\<rparr>) [0..<P]"

text \<open>\<^verbatim>\<open>np.array(rows).T.reshape(S, Y, X)\<close> with \<open>P = Y * X\<close>: the new buffer.\<close>

definition T_reshape :: "nat \<Rightarrow> nat \<Rightarrow> 'v ndarray list \<Rightarrow> 'v flt list" where
  "T_reshape S P rows = concat (map (\<lambda>c. map (\<lambda>p. vals (rows ! p) ! c) [0..<P]) [0..<S])"

text \<open>The dtype that \<^verbatim>\<open>np.array\<close> gives to a list of arrays.\<close>

fun common_type :: "fdtype list \<Rightarrow> fdtype" where
  "common_type [] = Float64"
| "common_type (d # ds) = foldl result_type d ds"

text \<open>\<^verbatim>\<open>masked_cube[cubemask] = np.nan\<close> on the buffer of the copy.\<close>

definition apply_mask :: "'v flt list \<Rightarrow> bool list \<Rightarrow> 'v flt list" where
  "apply_mask flat m = map2 (\<lambda>v b. if b then NaN else v) flat m"

text \<open>
  \<^verbatim>\<open>parallel_map\<close> belongs to pyspeckit. It applies the function to every element on a
  pool of workers, stores each result under the index of its element, and re-raises an
  exception of a call. The order in which the calls happen is not fixed: the model takes
  it as the list \<open>sched\<close> of indices, running every index not yet run when its turn
  comes and the indices that \<open>sched\<close> leaves out afterwards, in increasing order. The
  second component of the result counts the calls of the function that were made. On an
  empty sequence the model returns the empty list.
\<close>

fun run_tasks ::
  "('a \<Rightarrow> error + 'b) \<Rightarrow> 'a list \<Rightarrow> nat list \<Rightarrow> 'b option list \<Rightarrow> nat
     \<Rightarrow> (error + 'b option list) \<times> nat" where
  "run_tasks f xs [] res n = (Inr res, n)"
| "run_tasks f xs (i # sched) res n =
     (if i < length xs \<and> res ! i = None
      then (case f (xs ! i) of
              Inl e \<Rightarrow> (Inl e, Suc n)
            | Inr r \<Rightarrow> run_tasks f xs sched (res[i := Some r]) (Suc n))
      else run_tasks f xs sched res n)"

definition parallel_map ::
  "nat list \<Rightarrow> ('a \<Rightarrow> error + 'b) \<Rightarrow> 'a list \<Rightarrow> (error + 'b list) \<times> nat" where
  "parallel_map sched f xs =
     (case run_tasks f xs (sched @ [0..<length xs]) (replicate (length xs) None) 0 of
        (Inl e, n) \<Rightarrow> (Inl e, n)
      | (Inr res, n) \<Rightarrow> (Inr (map the res), n))"

text \<open>
  \<^verbatim>\<open>baseline_cube\<close>. The result is the returned cube or the exception, the heap after
  the call, and the number of calls of \<^verbatim>\<open>blfunc\<close> that were made. \<open>numcores\<close> only
  sizes the worker pool; the schedule stands in its place.
\<close>

definition baseline_cube ::
  "('v, 'p, 's) numlib \<Rightarrow> 'v heap \<Rightarrow> cube \<Rightarrow> int option \<Rightarrow> cubemask option \<Rightarrow> int option
     \<Rightarrow> nat list \<Rightarrow> int \<Rightarrow> (error + cube) \<times> 'v heap \<times> nat" where
  "baseline_cube lib h cube polyorder cubemask splineorder sched sampling =
     (let S = fst (cshape cube); Y = fst (snd (cshape cube)); X = snd (snd (cshape cube));
          x = \<lparr>dt = cdtype cube, vals = map (np_float lib (cdtype cube)) [0..<S]\<rparr>;
          f = blfunc lib (Some x) polyorder splineorder sampling;
          masked =
            (case cubemask of
               None \<Rightarrow> Inr (cbuf cube, h)
             | Some m \<Rightarrow>
                 if mdtype m \<noteq> Bool
                 then Inl (TypeError ''Cube mask *must* be a boolean array.'')
                 else if mshape m \<noteq> [S, Y, X]
                 then Inl (ValueError ''Mask shape does not match cube shape'')
                 else (let a = fst (alloc h (h ! cbuf cube));
                           h1 = snd (alloc h (h ! cbuf cube))
                       in Inr (a, h1[a := apply_mask (h1 ! a) (mdata m)])))
      in case masked of
           Inl e \<Rightarrow> (Inl e, h, 0)
         | Inr (fit_addr, h2) \<Rightarrow>
             (let fit_cube = reshape_T (cdtype cube) S (Y * X) (h2 ! fit_addr);
                  reshaped_cube = reshape_T (cdtype cube) S (Y * X) (h2 ! cbuf cube)
              in case parallel_map sched f (zip (map Plain fit_cube) reshaped_cube) of
                   (Inl e, n) \<Rightarrow> (Inl e, h2, n)
                 | (Inr baselined, n) \<Rightarrow>
                     if \<exists>b \<in> set baselined. length (vals b) \<noteq> S
                     then (Inl (ValueError ''cannot reshape array''), h2, n)
                     else (Inr \<lparr>cbuf = fst (alloc h2 (T_reshape S (Y * X) baselined)),
                                cdtype = common_type (map dt baselined),
                                cshape = (S, Y, X)\<rparr>,
                           snd (alloc h2 (T_reshape S (Y * X) baselined)), n)))"

text \<open>A cube is well formed in a heap when its buffer exists and has the size of its shape.\<close>

definition wf_cube :: "'v heap \<Rightarrow> cube \<Rightarrow> bool" where
  "wf_cube h cube =
     (cbuf cube < length h \<and>
      length (h ! cbuf cube) =
        fst (cshape cube) * (fst (snd (cshape cube)) * snd (snd (cshape cube))))"

text \<open>The spectrum \<^verbatim>\<open>a[:, y, x]\<close> of a cube buffer of shape \<open>(S, Y, X)\<close>.\<close>

definition spectrum_at :: "'v flt list \<Rightarrow> nat \<times> nat \<times> nat \<Rightarrow> nat \<Rightarrow> nat \<Rightarrow> 'v flt list" where
  "spectrum_at flat shp y x =
     map (\<lambda>c. flat ! (c * (fst (snd shp) * snd (snd shp)) + y * snd (snd shp) + x))
       [0..<fst shp]"

section \<open>The baseline driver\<close>

text \<open>An index into an axis of length \<open>S\<close>; negative indices count from the end.\<close>

definition norm_index :: "nat \<Rightarrow> int \<Rightarrow> nat option" where
  "norm_index S i =
     (if 0 \<le> i \<and> i < int S then Some (nat i)
      else if - int S \<le> i \<and> i < 0 then Some (nat (i + int S))
      else None)"

text \<open>
  The three statements that build the mask:
  \<^verbatim>\<open>cubemask = np.isfinite(cube)\<close>,
  \<^verbatim>\<open>cubemask[index_clean,:,:] = False\<close>,
  \<^verbatim>\<open>cubemask = (cubemask) | (np.isnan(cube))\<close>;
  \<open>chans\<close> are the channels that \<open>index_clean\<close> selects and \<open>P\<close> is the number of pixels.
\<close>

definition baseline_cubemask :: "'v flt list \<Rightarrow> nat \<Rightarrow> nat list \<Rightarrow> bool list" where
  "baseline_cubemask flat P chans =
     (let m1 = map isfinite flat;
          m2 = map (\<lambda>i. if i div P \<in> set chans then False else m1 ! i) [0..<length m1]
      in map2 (\<lambda>b v. b \<or> isnan v) m2 flat)"

text \<open>
  \<^verbatim>\<open>baseline\<close>, between reading the input file and writing the output file: the cube
  read from the file is given in the heap, and the baselined cube is returned.
\<close>

definition baseline ::
  "('v, 'p, 's) numlib \<Rightarrow> 'v heap \<Rightarrow> nat list \<Rightarrow> cube \<Rightarrow> int option \<Rightarrow> int list
     \<Rightarrow> (error + cube) \<times> 'v heap \<times> nat" where
  "baseline lib h sched cube polyorder index_clean =
     (let S = fst (cshape cube); Y = fst (snd (cshape cube)); X = snd (snd (cshape cube))
      in case those (map (norm_index S) index_clean) of
           None \<Rightarrow> (Inl (IndexError ''index is out of bounds for axis 0''), h, 0)
         | Some chans \<Rightarrow>
             baseline_cube lib h cube polyorder
               (Some \<lparr>mdtype = Bool, mshape = [S, Y, X],
                      mdata = baseline_cubemask (h ! cbuf cube) (Y * X) chans\<rparr>)
               None sched 1)"

section \<open>A small library instance\<close>

text \<open>
  To run the model on concrete spectra the library is instantiated with exact integer
  arithmetic and with fits that return the constant model through the first fit point.
  The theorems below hold for every library; this instance only serves to evaluate them.
\<close>

fun payload :: "int flt \<Rightarrow> int" where
  "payload (Fin n) = n"
| "payload _ = 0"

definition demo_lib :: "bool option \<Rightarrow> (int, int flt, int flt) numlib" where
  "demo_lib ok =
     \<lparr>np_mean = (\<lambda>d xs. if xs \<noteq> [] \<and> list_all isfinite xs
                          then Fin (sum_list (map payload xs) div int (length xs)) else NaN),
      np_polyfit = (\<lambda>xs ys deg.
         if deg < 0 then Inl (ValueError ''expected deg >= 0'')
         else if xs = [] then Inl (TypeError ''expected non-empty vector for x'')
         else Inr (hd ys)),
      np_polyval = (\<lambda>p u. p),
      np_astype = (\<lambda>d v. v),
      np_subtract = (\<lambda>d a b.
         case a of Fin m \<Rightarrow> (case b of Fin n \<Rightarrow> Fin (m - n) | _ \<Rightarrow> NaN) | _ \<Rightarrow> NaN),
      np_float = (\<lambda>d n. Fin (int n)),
      scipyOK = ok,
      UnivariateSpline = (\<lambda>xs ys k.
         if xs = [] then Inl (ValueError ''x is empty'') else Inr (hd ys)),
      spl_call = (\<lambda>s u. s)\<rparr>"

definition f32 :: "int list \<Rightarrow> int ndarray" where
  "f32 xs = \<lparr>dt = Float32, vals = map Fin xs\<rparr>"

text \<open>Two small cubes with their heaps, and a mask, for evaluating the driver.\<close>

definition cube1 :: cube where
  "cube1 = \<lparr>cbuf = 0, cdtype = Float32, cshape = (1, 1, 1)\<rparr>"

definition cube2 :: cube where
  "cube2 = \<lparr>cbuf = 0, cdtype = Float32, cshape = (2, 1, 2)\<rparr>"

definition heap1 :: "int heap" where
  "heap1 = [ [Fin 1] ]"

definition heap2 :: "int heap" where
  "heap2 = [ [Fin 5, Fin 7, Fin 6, NaN] ]"

text \<open>The heap and the cube that the driver returns on \<open>cube2\<close> with \<open>mask2\<close>.\<close>

definition heap2_out :: "int heap" where
  "heap2_out =
     [ [Fin 5, Fin 7, Fin 6, NaN], [Fin 5, NaN, Fin 6, NaN], [Fin 0, Fin 7, Fin 1, NaN] ]"

definition cube2_out :: cube where
  "cube2_out = \<lparr>cbuf = 2, cdtype = Float32, cshape = (2, 1, 2)\<rparr>"

definition mask2 :: cubemask where
  "mask2 = \<lparr>mdtype = Bool, mshape = [2, 1, 2], mdata = [False, True, False, False]\<rparr>"

section \<open>The downsampling in the words of the specification\<close>

text \<open>
  The usable prefix of the good samples has length \<open>ngood - ngood mod s\<close>. Its phase
  group \<open>ii\<close> holds the samples at the positions congruent to \<open>ii\<close> modulo \<open>s\<close>. The
  y-values of the fit are the element-wise means of the \<open>s\<close> phase groups. The x-values
  are the good x-values at the positions below the end of the prefix that are congruent
  to \<open>s div 2\<close> modulo \<open>s\<close>: every \<open>s\<close>-th one, from offset \<open>s div 2\<close>.
\<close>

definition usable_prefix :: "'a list \<Rightarrow> nat \<Rightarrow> nat \<Rightarrow> 'a list" where
  "usable_prefix good ngood s = take (ngood - ngood mod s) good"

definition phase_group :: "'a list \<Rightarrow> nat \<Rightarrow> nat \<Rightarrow> 'a list" where
  "phase_group pre s ii = map (\<lambda>i. pre ! i) (filter (\<lambda>i. i mod s = ii) [0..<length pre])"

definition spec_fit_y ::
  "('v flt list \<Rightarrow> 'v flt) \<Rightarrow> 'v flt list \<Rightarrow> nat \<Rightarrow> nat \<Rightarrow> 'v flt list" where
  "spec_fit_y mean good ngood s =
     (let pre = usable_prefix good ngood s
      in map (\<lambda>j. mean (map (\<lambda>ii. phase_group pre s ii ! j) [0..<s]))
           [0..<length pre div s])"

definition spec_fit_x :: "'a list \<Rightarrow> nat \<Rightarrow> nat \<Rightarrow> 'a list" where
  "spec_fit_x xgood ngood s =
     map (\<lambda>i. xgood ! i) (filter (\<lambda>i. i mod s = s div 2) [0..<ngood - ngood mod s])"

text \<open>
  The buffer from which \<^verbatim>\<open>baseline_cube\<close> reads the spectra that decide the fit: the
  buffer of the cube when there is no mask, the masked copy otherwise.
\<close>

definition fit_buffer :: "'v heap \<Rightarrow> cube \<Rightarrow> cubemask option \<Rightarrow> 'v flt list" where
  "fit_buffer h cube cubemask =
     (case cubemask of
        None \<Rightarrow> h ! cbuf cube
      | Some m \<Rightarrow> apply_mask (h ! cbuf cube) (mdata m))"

section \<open>The good samples and the infinite samples in the words of the claims\<close>

text \<open>
  The number of samples of the masked spectrum that are both unmasked and finite. A plain
  array has no masked sample.
\<close>

definition spec_ngood :: "'v spectrum \<Rightarrow> nat" where
  "spec_ngood yfit =
     (case yfit of
        Plain a \<Rightarrow> length (filter isfinite (vals a))
      | MaskedArray a m \<Rightarrow> length (filter (\<lambda>vb. \<not> snd vb \<and> isfinite (fst vb)) (zip (vals a) m)))"

fun isinf :: "'v flt \<Rightarrow> bool" where
  "isinf PInf = True"
| "isinf NInf = True"
| "isinf _ = False"

text \<open>
  A masked array of two samples, none of them masked, the first of them not-a-number; and
  a cube of two channels and one pixel whose sample in channel 0 is infinite.
\<close>

definition ma_nan :: "int spectrum" where
  "ma_nan = MaskedArray \<lparr>dt = Float32, vals = [NaN, Fin 1]\<rparr> [False, False]"

definition cube3 :: cube where
  "cube3 = \<lparr>cbuf = 0, cdtype = Float32, cshape = (2, 1, 1)\<rparr>"

definition heap3 :: "int heap" where
  "heap3 = [ [PInf, Fin 1] ]"

section \<open>Auxiliary notions for the proofs\<close>

text \<open>
  The invariant of the result table of \<open>run_tasks\<close>: every slot that is filled holds the
  result of the call on the element of that index.
\<close>

definition res_ok :: "('a \<Rightarrow> error + 'b) \<Rightarrow> 'a list \<Rightarrow> 'b option list \<Rightarrow> bool" where
  "res_ok f xs res =
     (length res = length xs \<and>
      (\<forall>i<length xs. \<forall>r. res ! i = Some r \<longrightarrow> f (xs ! i) = Inr r))"

section \<open>The silent fallback and the configuration errors of the fit function\<close>

lemma blfunc_no_order:
  "blfunc lib x0 None None sampling args =
     Inl (ValueError ''Must provide polyorder or splineorder'')"
  by (simp add: blfunc_def Let_def)

lemma ngood_of_Plain: "ngood_of (Plain a) = length (filter isfinite (vals a))"
  by (simp add: ngood_of_def good_mask_def count_nonzero_def filter_map o_def)

lemma ngood_of_MaskedArray: "ngood_of (MaskedArray a m) = length (filter Not m)"
  by (simp add: ngood_of_def good_mask_def count_nonzero_def filter_map o_def)

lemma spec_ngood_Plain: "spec_ngood (Plain a) = ngood_of (Plain a)"
  by (simp add: spec_ngood_def ngood_of_Plain)

text \<open>
  With the spline kind the module as it stands never gets to the fallback, to the sizing
  error or to the fit: reading the unbound name \<^verbatim>\<open>scipyOK\<close> stops the call.
\<close>

lemma blfunc_spline_unbound:
  "scipyOK lib = None \<Longrightarrow>
   blfunc lib x0 None (Some k) sampling args = Inl (NameError ''scipyOK'')"
  by (simp add: blfunc_def Let_def)

text \<open>
  Claim C1, as amended. With a polynomial order \<open>p\<close>, when the number of samples that
  \<^verbatim>\<open>blfunc\<close> counts as good is at most \<open>p\<close>, \<^verbatim>\<open>blfunc\<close> returns the raw spectrum
  itself and raises no error. The samples it counts are the finite samples of a plain
  array and the unmasked samples of a masked array, finite or not.
\<close>

theorem blfunc_noop_fallback:
  "int (case yfit of
          Plain a \<Rightarrow> length (filter isfinite (vals a))
        | MaskedArray a m \<Rightarrow> length (filter Not m)) \<le> p
   \<Longrightarrow> blfunc lib x0 (Some p) splineorder sampling (yfit, yreal) = Inr yreal"
  by (cases yfit)
    (simp_all add: blfunc_def Let_def good_mask_def count_nonzero_def filter_map o_def)

theorem blfunc_noop_fallback_witness:
  "blfunc (demo_lib None) None (Some 3) None 1 (Plain (f32 [1, 2, 3]), f32 [1, 2, 3])
     = Inr (f32 [1, 2, 3]) \<and>
   blfunc (demo_lib None) None (Some 2) None 1 (ma_nan, f32 [3, 1]) = Inr (f32 [3, 1])"
  using blfunc_noop_fallback [of "Plain (f32 [1, 2, 3])" 3 "demo_lib None" None None 1
      "f32 [1, 2, 3]"]
    blfunc_noop_fallback [of ma_nan 2 "demo_lib None" None None 1 "f32 [3, 1]"]
  by (simp add: f32_def ma_nan_def)

text \<open>
  The claim C1 as stated fails twice. The masked array \<open>ma_nan\<close> has one sample that is
  unmasked and finite, yet with polynomial order 1 \<^verbatim>\<open>blfunc\<close> counts two good samples
  and goes on to the fit instead of returning the raw spectrum. And with a spline order,
  here 3 on three good samples, the module as it stands stops at the unbound name
  \<^verbatim>\<open>scipyOK\<close> instead of returning the raw spectrum.
\<close>

theorem blfunc_noop_fallback_counterexample:
  "int (spec_ngood ma_nan) \<le> 1 \<and>
   blfunc (demo_lib None) None (Some 1) None 1 (ma_nan, f32 [3, 1]) \<noteq> Inr (f32 [3, 1]) \<and>
   int (spec_ngood (Plain (f32 [1, 2, 3]))) \<le> 3 \<and>
   blfunc (demo_lib None) None None (Some 3) 1 (Plain (f32 [1, 2, 3]), f32 [1, 2, 3])
     = Inl (NameError ''scipyOK'')"
  by code_simp




text \<open>
  Were \<^verbatim>\<open>scipyOK\<close> bound to \<open>True\<close>, a spline order \<open>k\<close> in \<open>{1,2,3,4}\<close> with more
  than \<open>k\<close> good samples whose downsampled sequence has at most \<open>k\<close> elements would get
  the ValueError of lines 70 to 72.
\<close>

lemma blfunc_sampling_too_sparse_if_bound:
  assumes "scipyOK lib = Some True" and "1 \<le> k" and "k \<le> 4" and "0 < s"
    and "k < int (ngood_of yfit)"
    and "int (length (fit_y lib (data_of yfit) (good_mask yfit) (ngood_of yfit) s)) \<le> k"
  shows "blfunc lib x0 None (Some k) (int s) (yfit, yreal) =
     Inl (ValueError
       ''Sampling is too sparse.  Use finer sampling or decrease the spline order.'')"
  using assms by (simp add: blfunc_def Let_def ngood_of_def spline_branch_def)

text \<open>
  Claim C8 fails on the module as it stands. With spline order 3, sampling 2 and six good
  samples, the downsampled sequence has three elements, which is not more than the
  order; the claim asks for the ValueError that names the cause, and \<^verbatim>\<open>blfunc\<close> stops
  before, at the unbound name \<^verbatim>\<open>scipyOK\<close> of line 59.
\<close>

theorem blfunc_sparse_sampling_name_error:
  "3 < int (ngood_of (Plain (f32 [1, 2, 3, 4, 5, 6]))) \<and>
   int (length (fit_y (demo_lib None) (f32 [1, 2, 3, 4, 5, 6])
          (good_mask (Plain (f32 [1, 2, 3, 4, 5, 6]))) 6 2)) \<le> 3 \<and>
   blfunc (demo_lib None) None None (Some 3) 2
     (Plain (f32 [1, 2, 3, 4, 5, 6]), f32 [1, 2, 3, 4, 5, 6]) = Inl (NameError ''scipyOK'')"
  by code_simp

section \<open>The worker pool\<close>

lemma run_tasks_Inl:
  "run_tasks f xs sched res n = (Inl e, n') \<Longrightarrow>
     0 < n' \<and> (\<exists>i<length xs. f (xs ! i) = Inl e)"
  by (induction f xs sched res n rule: run_tasks.induct) (auto split: if_splits sum.splits)

lemma run_tasks_Inr:
  "run_tasks f xs sched res n = (Inr res', n') \<Longrightarrow> res_ok f xs res \<Longrightarrow>
     res_ok f xs res' \<and>
     (\<forall>i\<in>set sched. i < length xs \<longrightarrow> res' ! i \<noteq> None) \<and>
     (\<forall>i<length xs. res ! i \<noteq> None \<longrightarrow> res' ! i \<noteq> None)"
proof (induction f xs sched res n rule: run_tasks.induct)
  case (1 f xs res n)
  then show ?case by simp
next
  case (2 f xs i sched res n)
  show ?case
  proof (cases "i < length xs \<and> res ! i = None")
    case True
    then obtain r where r: "f (xs ! i) = Inr r"
      using "2.prems"(1) by (cases "f (xs ! i)") auto
    have ok: "res_ok f xs (res[i := Some r])"
      using "2.prems"(2) True r by (auto simp: res_ok_def nth_list_update)
    have run: "run_tasks f xs sched (res[i := Some r]) (Suc n) = (Inr res', n')"
      using "2.prems"(1) True r by simp
    from "2.IH"(1) [OF True r run ok] have ih: "res_ok f xs res'"
      "\<forall>j\<in>set sched. j < length xs \<longrightarrow> res' ! j \<noteq> None"
      "\<forall>j<length xs. res[i := Some r] ! j \<noteq> None \<longrightarrow> res' ! j \<noteq> None"
      by auto
    have len: "length res = length xs"
      using "2.prems"(2) by (simp add: res_ok_def)
    have "res' ! i \<noteq> None"
      using ih(3) True len by (auto simp: nth_list_update)
    moreover have "\<forall>j<length xs. res ! j \<noteq> None \<longrightarrow> res' ! j \<noteq> None"
    proof (intro allI impI)
      fix j assume j: "j < length xs" "res ! j \<noteq> None"
      then have "res[i := Some r] ! j \<noteq> None"
        using len by (cases "j = i") simp_all
      then show "res' ! j \<noteq> None"
        using ih(3) j by blast
    qed
    ultimately show ?thesis
      using ih by auto
  next
    case False
    then have run: "run_tasks f xs sched res n = (Inr res', n')"
      using "2.prems"(1) by auto
    from "2.IH"(2) [OF False run "2.prems"(2)] show ?thesis
      using False by auto
  qed
qed

lemma run_tasks_total:
  "\<forall>i<length xs. \<exists>r. f (xs ! i) = Inr r \<Longrightarrow>
     \<exists>res' n'. run_tasks f xs sched res n = (Inr res', n')"
  by (induction f xs sched res n rule: run_tasks.induct) (auto split: if_splits sum.splits)

text \<open>
  Whatever the schedule, a pool that returns has stored under every index the result of
  the call on the element of that index.
\<close>

lemma parallel_map_Inr:
  assumes "parallel_map sched f xs = (Inr rs, n)"
  shows "length rs = length xs \<and> (\<forall>i<length xs. f (xs ! i) = Inr (rs ! i))"
proof -
  from assms obtain res where
    run: "run_tasks f xs (sched @ [0..<length xs]) (replicate (length xs) None) 0 = (Inr res, n)"
    and rs: "rs = map the res"
    by (auto simp: parallel_map_def split: prod.splits sum.splits)
  have ok0: "res_ok f xs (replicate (length xs) None)"
    by (simp add: res_ok_def)
  from run_tasks_Inr [OF run ok0] have ok: "res_ok f xs res"
    and all: "\<forall>i<length xs. res ! i \<noteq> None"
    by auto
  have len: "length res = length xs"
    using ok by (simp add: res_ok_def)
  show ?thesis
  proof (intro conjI allI impI)
    show "length rs = length xs"
      using rs len by simp
  next
    fix i assume i: "i < length xs"
    then obtain r where r: "res ! i = Some r"
      using all by auto
    then have "f (xs ! i) = Inr r"
      using ok i by (simp add: res_ok_def)
    then show "f (xs ! i) = Inr (rs ! i)"
      using rs r i len by simp
  qed
qed

lemma parallel_map_Inl:
  assumes "parallel_map sched f xs = (Inl e, n)"
  shows "0 < n \<and> (\<exists>i<length xs. f (xs ! i) = Inl e)"
proof -
  from assms have
    "run_tasks f xs (sched @ [0..<length xs]) (replicate (length xs) None) 0 = (Inl e, n)"
    by (auto simp: parallel_map_def split: prod.splits sum.splits)
  then show ?thesis
    by (rule run_tasks_Inl)
qed

lemma parallel_map_total:
  assumes "\<forall>i<length xs. \<exists>r. f (xs ! i) = Inr r"
  shows "\<exists>rs n. parallel_map sched f xs = (Inr rs, n)"
proof -
  from run_tasks_total [OF assms] obtain res n where
    "run_tasks f xs (sched @ [0..<length xs]) (replicate (length xs) None) 0 = (Inr res, n)"
    by blast
  then show ?thesis
    by (simp add: parallel_map_def)
qed

lemma parallel_map_fails:
  assumes "i < length xs" and "f (xs ! i) = Inl e0"
  shows "\<exists>e n. parallel_map sched f xs = (Inl e, n)"
proof (cases "parallel_map sched f xs")
  case (Pair r n)
  show ?thesis
  proof (cases r)
    case (Inl e)
    then show ?thesis
      using Pair by auto
  next
    case (Inr rs)
    with Pair parallel_map_Inr [of sched f xs rs n] assms show ?thesis
      by auto
  qed
qed

lemma length_reshape_T [simp]: "length (reshape_T d S P flat) = P"
  by (simp add: reshape_T_def)

section \<open>Validation of the mask and of the order selection in the driver\<close>

text \<open>
  Claim C4. When a mask is supplied whose dtype is not boolean, \<^verbatim>\<open>baseline_cube\<close>
  raises the TypeError; when its dtype is boolean and its shape differs from the shape of
  the cube, it raises the ValueError about the shape (the dtype is tested first, so a mask
  wrong in both respects gets the TypeError). In either case no call of the fit function
  has been made and the heap is as before: no working copy was made either.
\<close>

theorem baseline_cube_invalid_mask:
  "mdtype m \<noteq> Bool \<or> mshape m \<noteq> [S, Y, X] \<Longrightarrow> cshape cube = (S, Y, X) \<Longrightarrow>
   baseline_cube lib h cube polyorder (Some m) splineorder sched sampling =
     (Inl (if mdtype m \<noteq> Bool then TypeError ''Cube mask *must* be a boolean array.''
           else ValueError ''Mask shape does not match cube shape''), h, 0)"
  by (auto simp: baseline_cube_def Let_def)

theorem baseline_cube_invalid_mask_witness:
  "baseline_cube (demo_lib None) heap1 cube1 (Some 0)
     (Some \<lparr>mdtype = Int64, mshape = [1, 1, 1], mdata = [False]\<rparr>) None [] 1 =
     (Inl (TypeError ''Cube mask *must* be a boolean array.''), heap1, 0) \<and>
   baseline_cube (demo_lib None) heap1 cube1 (Some 0)
     (Some \<lparr>mdtype = Bool, mshape = [1, 1], mdata = [False]\<rparr>) None [] 1 =
     (Inl (ValueError ''Mask shape does not match cube shape''), heap1, 0)"
  using baseline_cube_invalid_mask
      [of "\<lparr>mdtype = Int64, mshape = [1, 1, 1], mdata = [False]\<rparr>" 1 1 1 cube1
        "demo_lib None" heap1 "Some 0" None "[]" 1]
    baseline_cube_invalid_mask
      [of "\<lparr>mdtype = Bool, mshape = [1, 1], mdata = [False]\<rparr>" 1 1 1 cube1
        "demo_lib None" heap1 "Some 0" None "[]" 1]
  by (simp add: cube1_def)

text \<open>
  Claim C5, as amended. When neither a polynomial order nor a spline order is given,
  every call of \<^verbatim>\<open>blfunc\<close> raises the ValueError (lemma \<open>blfunc_no_order\<close>), and
  \<^verbatim>\<open>baseline_cube\<close> on a cube with at least one pixel, with no mask or a valid one,
  aborts with that error. Nothing checks the orders before the dispatch: the error comes
  out of a per-pixel call, so at least one call has been made when it is raised.
\<close>

theorem baseline_cube_no_order_raises:
  assumes "cshape cube = (S, Y, X)" and "0 < Y * X"
    and "cubemask = None \<or>
         (\<exists>m. cubemask = Some m \<and> mdtype m = Bool \<and> mshape m = [S, Y, X])"
  shows "\<exists>h' n. baseline_cube lib h cube None cubemask None sched sampling =
           (Inl (ValueError ''Must provide polyorder or splineorder''), h', n) \<and> 0 < n"
proof -
  define x where "x = \<lparr>dt = cdtype cube, vals = map (np_float lib (cdtype cube)) [0..<S]\<rparr>"
  define f where "f = blfunc lib (Some x) None None sampling"
  have fail: "\<And>a. f a = Inl (ValueError ''Must provide polyorder or splineorder'')"
    by (simp add: f_def blfunc_no_order)
  have pm: "\<exists>n. parallel_map sched f xs =
               (Inl (ValueError ''Must provide polyorder or splineorder''), n) \<and> 0 < n"
    if "0 < length xs" for xs
  proof -
    from parallel_map_fails [where f = f and xs = xs and i = 0 and sched = sched, OF that fail]
    obtain e n where en: "parallel_map sched f xs = (Inl e, n)"
      by blast
    from parallel_map_Inl [OF en] fail
    have "0 < n" and "e = ValueError ''Must provide polyorder or splineorder''"
      by auto
    with en show ?thesis
      by simp
  qed
  from assms(3) show ?thesis
  proof
    assume none: "cubemask = None"
    let ?xs = "zip (map Plain (reshape_T (cdtype cube) S (Y * X) (h ! cbuf cube)))
                 (reshape_T (cdtype cube) S (Y * X) (h ! cbuf cube))"
    have "0 < length ?xs"
      using assms(2) by simp
    from pm [OF this] obtain n where
      "parallel_map sched f ?xs =
         (Inl (ValueError ''Must provide polyorder or splineorder''), n)" and "0 < n"
      by blast
    then show ?thesis
      using none assms(1) by (simp add: baseline_cube_def Let_def f_def x_def)
  next
    assume "\<exists>m. cubemask = Some m \<and> mdtype m = Bool \<and> mshape m = [S, Y, X]"
    then obtain m where m: "cubemask = Some m" "mdtype m = Bool" "mshape m = [S, Y, X]"
      by blast
    define h2 where "h2 = (h @ [h ! cbuf cube])
      [length h := apply_mask ((h @ [h ! cbuf cube]) ! length h) (mdata m)]"
    let ?xs = "zip (map Plain (reshape_T (cdtype cube) S (Y * X) (h2 ! length h)))
                 (reshape_T (cdtype cube) S (Y * X) (h2 ! cbuf cube))"
    have "0 < length ?xs"
      using assms(2) by simp
    from pm [OF this] obtain n where
      "parallel_map sched f ?xs =
         (Inl (ValueError ''Must provide polyorder or splineorder''), n)" and "0 < n"
      by blast
    then show ?thesis
      using m assms(1) by (simp add: baseline_cube_def Let_def f_def x_def alloc_def h2_def)
  qed
qed

theorem baseline_cube_no_order_raises_witness:
  "\<exists>h' n. baseline_cube (demo_lib None) heap1 cube1 None None None [] 1 =
     (Inl (ValueError ''Must provide polyorder or splineorder''), h', n) \<and> 0 < n"
  using baseline_cube_no_order_raises [of cube1 1 1 1 None "demo_lib None" heap1 "[]" 1]
  by (simp add: cube1_def)

text \<open>
  The claim C5 as stated fails: on a cube of one pixel the error is raised by the call
  of the fit function on that pixel, that is, after the dispatch.
\<close>

theorem baseline_cube_no_order_counterexample:
  "baseline_cube (demo_lib None) heap1 cube1 None None None [] 1 =
     (Inl (ValueError ''Must provide polyorder or splineorder''), heap1, 1)"
  by (simp add: baseline_cube_def Let_def cube1_def heap1_def reshape_T_def parallel_map_def
      blfunc_no_order)

section \<open>The frame of the driver\<close>

lemma baseline_cube_demo_run:
  "baseline_cube (demo_lib None) heap2 cube2 (Some 0) (Some mask2) None [1] 1 =
     (Inr cube2_out, heap2_out, 2)"
  by code_simp

text \<open>
  Claim C9. Whatever \<^verbatim>\<open>baseline_cube\<close> returns or raises, every buffer that existed
  before the call holds the same data after it, the buffer of the input cube among them;
  the unmasked reference \<^verbatim>\<open>reshaped_cube\<close> is a view of that buffer. With a valid mask
  the masked samples are set to not-a-number in a copy that lives in a new buffer.
\<close>

theorem baseline_cube_frame:
  assumes "baseline_cube lib h cube polyorder cubemask splineorder sched sampling = (r, h', n)"
    and "cbuf cube < length h" and "cshape cube = (S, Y, X)"
  shows "h' ! cbuf cube = h ! cbuf cube \<and> (\<forall>a<length h. h' ! a = h ! a) \<and>
    (\<forall>m. cubemask = Some m \<and> mdtype m = Bool \<and> mshape m = [S, Y, X] \<longrightarrow>
       length h < length h' \<and> h' ! length h = apply_mask (h ! cbuf cube) (mdata m))"
  using assms
  by (auto simp: baseline_cube_def Let_def alloc_def nth_append
      split: option.splits if_splits prod.splits sum.splits)

theorem baseline_cube_frame_witness:
  "heap2_out ! cbuf cube2 = heap2 ! cbuf cube2 \<and>
   heap2_out ! length heap2 = apply_mask (heap2 ! cbuf cube2) (mdata mask2)"
proof -
  have a: "cbuf cube2 < length heap2"
    by (simp add: cube2_def heap2_def)
  have b: "cshape cube2 = (2, 1, 2)"
    by (simp add: cube2_def)
  have c: "mdtype mask2 = Bool \<and> mshape mask2 = [2, 1, 2]"
    by (simp add: mask2_def)
  from baseline_cube_frame [OF baseline_cube_demo_run a b] c show ?thesis
    by blast
qed

section \<open>The points handed to the polynomial fit\<close>

lemma filter_eq_upt: "filter (\<lambda>t. t = a) [0..<s] = (if a < s then [a] else [])"
  by (induction s) auto

lemma filter_mod_block:
  assumes "a < s"
  shows "filter (\<lambda>i. i mod s = a) [m * s..<m * s + s] = [a + m * s]"
proof -
  have "[m * s..<m * s + s] = map (\<lambda>t. t + m * s) [0..<s]"
    by (simp add: map_add_upt add.commute)
  then have "filter (\<lambda>i. i mod s = a) [m * s..<m * s + s]
      = map (\<lambda>t. t + m * s) (filter (\<lambda>t. (t + m * s) mod s = a) [0..<s])"
    by (simp add: filter_map o_def)
  also have "filter (\<lambda>t. (t + m * s) mod s = a) [0..<s] = filter (\<lambda>t. t = a) [0..<s]"
    by (rule filter_cong) auto
  finally show ?thesis using assms by (simp add: filter_eq_upt)
qed

lemma filter_mod_upt:
  assumes "a < s"
  shows "filter (\<lambda>i. i mod s = a) [0..<m * s] = map (\<lambda>j. a + j * s) [0..<m]"
proof (induction m)
  case 0
  show ?case by simp
next
  case (Suc m)
  have "[0..<m * s + s] = [0..<m * s] @ [m * s..<m * s + s]"
    by (rule upt_add_eq_append) simp
  moreover have "Suc m * s = m * s + s"
    by simp
  ultimately have split: "[0..<Suc m * s] = [0..<m * s] @ [m * s..<m * s + s]"
    by (simp only:)
  show ?case
    unfolding split filter_append Suc filter_mod_block [OF assms] by simp
qed

lemma length_bool_index:
  "length a = length m \<Longrightarrow> length (bool_index a m) = count_nonzero m"
  by (induction a m rule: list_induct2) (auto simp: bool_index_def count_nonzero_def)

lemma slice_count:
  assumes "ii < s"
  shows "(m * s - ii + s - Suc 0) div s = (m::nat)"
proof (cases m)
  case 0
  then show ?thesis using assms by simp
next
  case (Suc k)
  have "ii \<le> m * s" using assms Suc by (simp add: trans_le_add1 less_imp_le)
  then have "m * s - ii + s - Suc 0 = (s - Suc 0 - ii) + m * s" using assms by simp
  moreover have "s - Suc 0 - ii < s" using assms by simp
  ultimately show ?thesis by simp
qed

lemma mean_axis0_map:
  assumes "0 < s"
  shows "mean_axis0 mean (map f [0..<s]) =
     map (\<lambda>j. mean (map (\<lambda>ii. f ii ! j) [0..<s])) [0..<length (f 0)]"
proof -
  from assms obtain t where "[0..<s] = 0 # t" by (auto simp: upt_conv_Cons)
  then show ?thesis by (simp add: mean_axis0_def o_def)
qed

lemma slice_stride:
  assumes "ii < s" "m * s \<le> length g"
  shows "slice g ii (m * s) s = map (\<lambda>j. g ! (ii + j * s)) [0..<m]"
  using assms by (simp add: slice_def Let_def min_absorb1 slice_count)

lemma endpoint_eq: "(n::nat) - n mod s = (n div s) * s"
  by (simp add: minus_mod_eq_div_mult)


lemma fit_y_spec:
  assumes "0 < s" "length (vals yf) = length msk" "ngood = count_nonzero msk"
  shows "fit_y lib yf msk ngood s = spec_fit_y (np_mean lib (dt yf)) (bool_index (vals yf) msk) ngood s"
proof -
  define g where "g = bool_index (vals yf) msk"
  define m where "m = ngood div s"
  have len: "length g = ngood" using assms by (simp add: g_def length_bool_index)
  have le: "m * s \<le> length g" using len by (simp add: m_def)
  have grp: "slice g ii (m * s) s = map (\<lambda>j. g ! (ii + j * s)) [0..<m]" if "ii < s" for ii
    using slice_stride[OF that le] .
  have groups: "map (\<lambda>ii. slice g ii (m * s) s) [0..<s] = map (\<lambda>ii. map (\<lambda>j. g ! (ii + j * s)) [0..<m]) [0..<s]"
    by (rule map_cong) (auto simp: grp)
  have code: "fit_y lib yf msk ngood s = map (\<lambda>j. np_mean lib (dt yf) (map (\<lambda>ii. g ! (ii + j * s)) [0..<s])) [0..<m]"
  proof -
    have "fit_y lib yf msk ngood s = mean_axis0 (np_mean lib (dt yf)) (map (\<lambda>ii. slice g ii (m * s) s) [0..<s])"
      by (simp add: fit_y_def Let_def endpoint_eq g_def m_def)
    also have "\<dots> = mean_axis0 (np_mean lib (dt yf)) (map (\<lambda>ii. map (\<lambda>j. g ! (ii + j * s)) [0..<m]) [0..<s])"
      by (simp only: groups)
    also have "\<dots> = map (\<lambda>j. np_mean lib (dt yf) (map (\<lambda>ii. map (\<lambda>j. g ! (ii + j * s)) [0..<m] ! j) [0..<s])) [0..<m]"
      by (simp add: mean_axis0_map[OF assms(1)])
    also have "\<dots> = map (\<lambda>j. np_mean lib (dt yf) (map (\<lambda>ii. g ! (ii + j * s)) [0..<s])) [0..<m]"
      by (rule map_cong[OF refl]) simp
    finally show ?thesis .
  qed
  define pre where "pre = usable_prefix g ngood s"
  have pre: "pre = take (m * s) g" by (simp add: pre_def usable_prefix_def endpoint_eq m_def)
  have lpre: "length pre = m * s" using le pre by simp
  have pg: "phase_group pre s ii = map (\<lambda>j. pre ! (ii + j * s)) [0..<m]" if "ii < s" for ii
    using that by (simp add: phase_group_def lpre filter_mod_upt o_def)
  have inb: "ii + j * s < m * s" if "ii < s" "j < m" for ii j
  proof -
    have "ii + j * s < s + j * s" using that by simp
    also have "\<dots> = Suc j * s" by simp
    also have "\<dots> \<le> m * s" using that by (intro mult_le_mono1) simp
    finally show ?thesis .
  qed
  have spec: "spec_fit_y (np_mean lib (dt yf)) g ngood s = map (\<lambda>j. np_mean lib (dt yf) (map (\<lambda>ii. g ! (ii + j * s)) [0..<s])) [0..<m]"
  proof -
    have "spec_fit_y (np_mean lib (dt yf)) g ngood s = map (\<lambda>j. np_mean lib (dt yf) (map (\<lambda>ii. phase_group pre s ii ! j) [0..<s])) [0..<m]"
      using assms(1) by (simp add: spec_fit_y_def Let_def pre_def[symmetric] lpre)
    also have "\<dots> = map (\<lambda>j. np_mean lib (dt yf) (map (\<lambda>ii. g ! (ii + j * s)) [0..<s])) [0..<m]"
    proof (rule map_cong[OF refl])
      fix j assume "j \<in> set [0..<m]"
      then have j: "j < m" by simp
      have "map (\<lambda>ii. phase_group pre s ii ! j) [0..<s] = map (\<lambda>ii. g ! (ii + j * s)) [0..<s]"
      proof (rule map_cong[OF refl])
        fix ii assume "ii \<in> set [0..<s]"
        then have ii: "ii < s" by simp
        have "phase_group pre s ii ! j = pre ! (ii + j * s)"
          using j by (simp add: pg[OF ii])
        also have "\<dots> = g ! (ii + j * s)"
          using inb[OF ii j] by (simp add: pre)
        finally show "phase_group pre s ii ! j = g ! (ii + j * s)" .
      qed
      then show "np_mean lib (dt yf) (map (\<lambda>ii. phase_group pre s ii ! j) [0..<s]) = np_mean lib (dt yf) (map (\<lambda>ii. g ! (ii + j * s)) [0..<s])"
        by (rule arg_cong)
    qed
    finally show ?thesis .
  qed
  show ?thesis using code spec by (simp add: g_def)
qed

lemma length_fit_y:
  assumes "0 < s" and "length (vals yf) = length msk" and "ngood = count_nonzero msk"
  shows "length (fit_y lib yf msk ngood s) = ngood div s"
proof -
  have "length (bool_index (vals yf) msk) = ngood"
    using assms by (simp add: length_bool_index)
  then show ?thesis
    unfolding fit_y_spec [OF assms] spec_fit_y_def usable_prefix_def Let_def endpoint_eq
    by simp
qed

lemma downsampling_example:
  "spec_fit_x (map Fin [10, 20, 30, 40, 50, 60, 70::int]) 7 3 = [Fin 20, Fin 50] \<and>
   spec_fit_y (np_mean (demo_lib None) Float32) (map Fin [1, 2, 3, 4, 5, 6, 7]) 7 2
     = [Fin 1, Fin 3, Fin 5]"
  by code_simp



section \<open>The result of a fit\<close>

lemma result_type_same [simp]: "result_type d d = d"
  by (cases d) simp_all

lemma result_type_Float64 [simp]: "result_type d Float64 = Float64"
  by (cases d) simp_all

lemma ndarray_sub_dt: "ndarray_sub lib a b = Inr r \<Longrightarrow> dt r = result_type (dt a) (dt b)"
  by (auto simp: ndarray_sub_def Let_def split: if_splits)

lemma ndarray_sub_vals:
  "length (vals a) = length (vals b) \<Longrightarrow>
   ndarray_sub lib a b =
     Inr \<lparr>dt = result_type (dt a) (dt b),
          vals = map2 (np_subtract lib (result_type (dt a) (dt b))) (vals a) (vals b)\<rparr>"
  by (simp add: ndarray_sub_def Let_def)

lemma blfunc_poly_fit_result:
  assumes "p < int (ngood_of yfit)"
    and "blfunc lib x0 (Some p) splineorder sampling (yfit, yreal) = Inr r"
  shows "dt r = dt yreal \<and>
    (\<exists>polypars. np_polyfit lib
         (fit_x (xaxis lib x0 (data_of yfit)) (good_mask yfit) (ngood_of yfit) (nat sampling))
         (fit_y lib (data_of yfit) (good_mask yfit) (ngood_of yfit) (nat sampling)) p = Inr polypars \<and>
       (length (vals (xaxis lib x0 (data_of yfit))) = length (vals yreal) \<longrightarrow>
        vals r = map2 (\<lambda>v u. np_subtract lib (dt yreal) v
                          (np_astype lib (dt yreal) (np_polyval lib polypars u)))
                   (vals yreal) (vals (xaxis lib x0 (data_of yfit)))))"
  using assms
  by (auto simp: blfunc_def Let_def ngood_of_def poly_branch_def poly_subtract_def
      ndarray_sub_vals zip_map2 o_def split_def
      dest: ndarray_sub_dt split: if_splits sum.splits)

lemma blfunc_spline_fit_result:
  assumes "k < int (ngood_of yfit)"
    and "blfunc lib x0 None (Some k) sampling (yfit, yreal) = Inr r"
  shows "dt r = Float64 \<and>
    (\<exists>spl. UnivariateSpline lib
         (fit_x (xaxis lib x0 (data_of yfit)) (good_mask yfit) (ngood_of yfit) (nat sampling))
         (fit_y lib (data_of yfit) (good_mask yfit) (ngood_of yfit) (nat sampling)) k = Inr spl \<and>
       (length (vals (xaxis lib x0 (data_of yfit))) = length (vals yreal) \<longrightarrow>
        vals r = map2 (\<lambda>v u. np_subtract lib Float64 v (spl_call lib spl u))
                   (vals yreal) (vals (xaxis lib x0 (data_of yfit)))))"
  using assms
  by (auto simp: blfunc_def Let_def ngood_of_def spline_branch_def spline_subtract_def
      ndarray_sub_vals zip_map2 o_def split_def
      dest: ndarray_sub_dt split: if_splits sum.splits option.splits bool.splits)

text \<open>
  Claim C7 fails for the spline kind on the module as it stands. With spline order 1 and
  sampling 1 on three good samples the fit should proceed: there are more good samples
  than the order, and the three fit points are more than the order, so no sizing error
  is due. The claim asks for the raw spectrum minus the spline; \<^verbatim>\<open>blfunc\<close> stops at
  the unbound name \<^verbatim>\<open>scipyOK\<close> of line 59 and returns nothing. For the polynomial
  kind the claim holds (lemma \<open>blfunc_poly_fit_result\<close>).
\<close>

theorem blfunc_spline_fit_name_error:
  "1 < int (ngood_of (Plain (f32 [1, 2, 3]))) \<and>
   1 < int (length (fit_y (demo_lib None) (f32 [1, 2, 3])
          (good_mask (Plain (f32 [1, 2, 3]))) 3 1)) \<and>
   blfunc (demo_lib None) None None (Some 1) 1 (Plain (f32 [1, 2, 3]), f32 [1, 2, 3])
     = Inl (NameError ''scipyOK'')"
  by code_simp

section \<open>Flattening and reassembly of the cube\<close>

lemma length_T_reshape: "length (T_reshape S P rows) = S * P"
  by (induction S) (simp_all add: T_reshape_def)

lemma grid_index: "c < S \<Longrightarrow> p < P \<Longrightarrow> c * P + p < S * (P::nat)"
proof -
  assume c: "c < S" and p: "p < P"
  have "c * P + p < c * P + P" using p by simp
  also have "\<dots> = Suc c * P" by simp
  also have "\<dots> \<le> S * P" using c by (intro mult_le_mono1) simp
  finally show ?thesis .
qed

lemma T_reshape_nth:
  "c < S \<Longrightarrow> p < P \<Longrightarrow> T_reshape S P rows ! (c * P + p) = vals (rows ! p) ! c"
proof (induction S)
  case 0
  then show ?case by simp
next
  case (Suc S)
  have step: "T_reshape (Suc S) P rows = T_reshape S P rows @ map (\<lambda>p. vals (rows ! p) ! S) [0..<P]"
    by (simp add: T_reshape_def)
  show ?case
  proof (cases "c < S")
    case True
    then have "c * P + p < length (T_reshape S P rows)"
      using Suc.prems(2) by (simp add: length_T_reshape grid_index)
    then show ?thesis using Suc.IH [OF True Suc.prems(2)] by (simp add: step nth_append)
  next
    case False
    then have c: "c = S" using Suc.prems(1) by simp
    show ?thesis using Suc.prems(2) by (simp add: step nth_append length_T_reshape c)
  qed
qed

lemma reshape_T_nth:
  "p < P \<Longrightarrow> reshape_T d S P flat ! p = \<lparr>dt = d, vals = map (\<lambda>c. flat ! (c * P + p)) [0..<S]\<rparr>"
  by (simp add: reshape_T_def)

lemma reshape_T_spectrum:
  "y < Y \<Longrightarrow> x < X \<Longrightarrow>
   reshape_T d S (Y * X) flat ! (y * X + x) = \<lparr>dt = d, vals = spectrum_at flat (S, Y, X) y x\<rparr>"
  by (simp add: reshape_T_nth grid_index spectrum_at_def add.assoc)

lemma baseline_cube_Inr:
  assumes "baseline_cube lib h cube polyorder cubemask splineorder sched sampling = (Inr out, h', n)"
    and "cbuf cube < length h" and "cshape cube = (S, Y, X)"
  shows "\<exists>baselined h2.
    parallel_map sched
      (blfunc lib (Some \<lparr>dt = cdtype cube, vals = map (np_float lib (cdtype cube)) [0..<S]\<rparr>)
         polyorder splineorder sampling)
      (zip (map Plain (reshape_T (cdtype cube) S (Y * X) (fit_buffer h cube cubemask)))
           (reshape_T (cdtype cube) S (Y * X) (h ! cbuf cube))) = (Inr baselined, n) \<and>
    (\<forall>b\<in>set baselined. length (vals b) = S) \<and>
    h' = h2 @ [T_reshape S (Y * X) baselined] \<and> cbuf out = length h2 \<and> cshape out = (S, Y, X)"
  using assms
  by (auto simp: baseline_cube_def Let_def alloc_def nth_append fit_buffer_def
      split: option.splits if_splits prod.splits sum.splits)

lemma blfunc_result_length:
  assumes "blfunc lib (Some x) polyorder splineorder sampling (yfit, yreal) = Inr r"
    and "length (vals x) = length (vals yreal)"
  shows "length (vals r) = length (vals yreal)"
  using assms
  by (auto simp: blfunc_def Let_def xaxis_def poly_branch_def spline_branch_def
      poly_subtract_def spline_subtract_def ndarray_sub_vals
      split: option.splits if_splits sum.splits bool.splits)

lemma pixel_decompose:
  assumes "i < Y * (X::nat)"
  shows "i div X < Y \<and> i mod X < X \<and> i = (i div X) * X + i mod X"
proof -
  have X: "0 < X" using assms by (cases X) auto
  have "i div X < Y" using assms X by (simp add: less_mult_imp_div_less)
  then show ?thesis using X by simp
qed

text \<open>
  The driver returns on a cube with at least one pixel whenever the mask is absent or
  valid and the fit of every pixel succeeds.
\<close>

lemma baseline_cube_returns:
  assumes "wf_cube h cube" and "cshape cube = (S, Y, X)" and "0 < Y * X"
    and "cubemask = None \<or>
         (\<exists>m. cubemask = Some m \<and> mdtype m = Bool \<and> mshape m = [S, Y, X])"
    and "\<forall>y<Y. \<forall>x<X. \<exists>r.
      blfunc lib (Some \<lparr>dt = cdtype cube, vals = map (np_float lib (cdtype cube)) [0..<S]\<rparr>)
        polyorder splineorder sampling
        (Plain \<lparr>dt = cdtype cube, vals = spectrum_at (fit_buffer h cube cubemask) (S, Y, X) y x\<rparr>,
         \<lparr>dt = cdtype cube, vals = spectrum_at (h ! cbuf cube) (S, Y, X) y x\<rparr>) = Inr r"
  shows "\<exists>out h' n.
    baseline_cube lib h cube polyorder cubemask splineorder sched sampling = (Inr out, h', n)"
proof -
  let ?x = "\<lparr>dt = cdtype cube, vals = map (np_float lib (cdtype cube)) [0..<S]\<rparr>"
  let ?f = "blfunc lib (Some ?x) polyorder splineorder sampling"
  let ?fit = "reshape_T (cdtype cube) S (Y * X) (fit_buffer h cube cubemask)"
  let ?raw = "reshape_T (cdtype cube) S (Y * X) (h ! cbuf cube)"
  let ?xs = "zip (map Plain ?fit) ?raw"
  have buf: "cbuf cube < length h" using assms(1) by (simp add: wf_cube_def)
  have xsi: "?xs ! i = (Plain \<lparr>dt = cdtype cube,
        vals = spectrum_at (fit_buffer h cube cubemask) (S, Y, X) (i div X) (i mod X)\<rparr>,
      \<lparr>dt = cdtype cube, vals = spectrum_at (h ! cbuf cube) (S, Y, X) (i div X) (i mod X)\<rparr>)"
    if "i < Y * X" for i
  proof -
    from pixel_decompose [OF that] have d: "i div X < Y" "i mod X < X"
      and i: "i = (i div X) * X + i mod X" by auto
    have e: "(i div X) * X + i mod X = i"
      by simp
    have "?fit ! i = \<lparr>dt = cdtype cube,
        vals = spectrum_at (fit_buffer h cube cubemask) (S, Y, X) (i div X) (i mod X)\<rparr>"
      using reshape_T_spectrum [OF d, of "cdtype cube" S "fit_buffer h cube cubemask"]
      unfolding e .
    moreover have "?raw ! i = \<lparr>dt = cdtype cube,
        vals = spectrum_at (h ! cbuf cube) (S, Y, X) (i div X) (i mod X)\<rparr>"
      using reshape_T_spectrum [OF d, of "cdtype cube" S "h ! cbuf cube"]
      unfolding e .
    ultimately show ?thesis
      using that by simp
  qed
  have ok: "\<forall>i<length ?xs. \<exists>r. ?f (?xs ! i) = Inr r"
  proof (intro allI impI)
    fix i assume "i < length ?xs"
    then have i: "i < Y * X" by simp
    from pixel_decompose [OF i] assms(5) xsi [OF i] show "\<exists>r. ?f (?xs ! i) = Inr r" by simp
  qed
  from parallel_map_total [OF ok] obtain baselined n where
    pm: "parallel_map sched ?f ?xs = (Inr baselined, n)" by blast
  from parallel_map_Inr [OF pm] have lb: "length baselined = Y * X"
    and calls: "\<forall>i<Y * X. ?f (?xs ! i) = Inr (baselined ! i)" by auto
  have len: "\<forall>b\<in>set baselined. length (vals b) = S"
  proof
    fix b assume "b \<in> set baselined"
    then obtain i where i: "i < Y * X" and b: "b = baselined ! i"
      using lb by (auto simp: in_set_conv_nth)
    have "?f (?xs ! i) = Inr b" using calls i b by simp
    then have "?f (Plain \<lparr>dt = cdtype cube,
        vals = spectrum_at (fit_buffer h cube cubemask) (S, Y, X) (i div X) (i mod X)\<rparr>,
      \<lparr>dt = cdtype cube, vals = spectrum_at (h ! cbuf cube) (S, Y, X) (i div X) (i mod X)\<rparr>) = Inr b"
      using xsi [OF i] by simp
    from blfunc_result_length [OF this] show "length (vals b) = S"
      by (simp add: spectrum_at_def)
  qed
  from assms(4) show ?thesis
  proof
    assume "cubemask = None"
    then show ?thesis using pm len assms(2)
      by (simp add: baseline_cube_def Let_def fit_buffer_def)
  next
    assume "\<exists>m. cubemask = Some m \<and> mdtype m = Bool \<and> mshape m = [S, Y, X]"
    then obtain m where m: "cubemask = Some m" "mdtype m = Bool" "mshape m = [S, Y, X]" by blast
    show ?thesis using pm len assms(2) m buf
      by (simp add: baseline_cube_def Let_def fit_buffer_def alloc_def nth_append)
  qed
qed

text \<open>
  Claim C2. When \<^verbatim>\<open>baseline_cube\<close> returns (lemma \<open>baseline_cube_returns\<close> says
  when it does), the returned
  cube has the shape of the input cube, and its spectrum at every pixel \<open>(y, x)\<close> is the
  result of \<^verbatim>\<open>blfunc\<close> on the pair of the masked and the raw spectrum of the input at
  \<open>(y, x)\<close>. This holds for every schedule of the worker pool.
\<close>

theorem baseline_cube_pixelwise:
  assumes "baseline_cube lib h cube polyorder cubemask splineorder sched sampling = (Inr out, h', n)"
    and "wf_cube h cube" and "cshape cube = (S, Y, X)" and "y < Y" and "x < X"
  shows "cshape out = cshape cube \<and> wf_cube h' out \<and>
    (\<exists>r. blfunc lib (Some \<lparr>dt = cdtype cube, vals = map (np_float lib (cdtype cube)) [0..<S]\<rparr>)
            polyorder splineorder sampling
            (Plain \<lparr>dt = cdtype cube, vals = spectrum_at (fit_buffer h cube cubemask) (S, Y, X) y x\<rparr>,
             \<lparr>dt = cdtype cube, vals = spectrum_at (h ! cbuf cube) (S, Y, X) y x\<rparr>) = Inr r \<and>
         spectrum_at (h' ! cbuf out) (S, Y, X) y x = vals r)"
proof -
  let ?f = "blfunc lib (Some \<lparr>dt = cdtype cube, vals = map (np_float lib (cdtype cube)) [0..<S]\<rparr>)
         polyorder splineorder sampling"
  let ?fit = "reshape_T (cdtype cube) S (Y * X) (fit_buffer h cube cubemask)"
  let ?raw = "reshape_T (cdtype cube) S (Y * X) (h ! cbuf cube)"
  let ?xs = "zip (map Plain ?fit) ?raw"
  let ?p = "y * X + x"
  have buf: "cbuf cube < length h" using assms(2) by (simp add: wf_cube_def)
  from baseline_cube_Inr [OF assms(1) buf assms(3)] obtain baselined h2 where
    pm: "parallel_map sched ?f ?xs = (Inr baselined, n)"
    and len: "\<forall>b\<in>set baselined. length (vals b) = S"
    and h': "h' = h2 @ [T_reshape S (Y * X) baselined]"
    and out: "cbuf out = length h2" "cshape out = (S, Y, X)"
    by blast
  have p: "?p < Y * X" using grid_index [OF assms(4,5)] .
  have lxs: "length ?xs = Y * X" by simp
  from parallel_map_Inr [OF pm] lxs have lb: "length baselined = Y * X"
    and calls: "\<forall>i<Y * X. ?f (?xs ! i) = Inr (baselined ! i)" by auto
  have xsp: "?xs ! ?p = (Plain \<lparr>dt = cdtype cube, vals = spectrum_at (fit_buffer h cube cubemask) (S, Y, X) y x\<rparr>,
             \<lparr>dt = cdtype cube, vals = spectrum_at (h ! cbuf cube) (S, Y, X) y x\<rparr>)"
    using p assms(4,5) by (simp add: reshape_T_spectrum)
  have call: "?f (?xs ! ?p) = Inr (baselined ! ?p)" using calls p by blast
  have lr: "length (vals (baselined ! ?p)) = S" using len lb p by simp
  have outbuf: "h' ! cbuf out = T_reshape S (Y * X) baselined" by (simp add: h' out(1))
  have "spectrum_at (h' ! cbuf out) (S, Y, X) y x =
      map (\<lambda>c. T_reshape S (Y * X) baselined ! (c * (Y * X) + ?p)) [0..<S]"
    by (simp add: outbuf spectrum_at_def add.assoc)
  also have "\<dots> = map (\<lambda>c. vals (baselined ! ?p) ! c) [0..<S]"
  proof (rule map_cong [OF refl])
    fix c assume "c \<in> set [0..<S]"
    then have "c < S" by simp
    then show "T_reshape S (Y * X) baselined ! (c * (Y * X) + ?p) = vals (baselined ! ?p) ! c"
      using p by (rule T_reshape_nth)
  qed
  also have "\<dots> = vals (baselined ! ?p)"
    using map_nth [of "vals (baselined ! ?p)"] lr by simp
  finally have spec: "spectrum_at (h' ! cbuf out) (S, Y, X) y x = vals (baselined ! ?p)" .
  have wf: "wf_cube h' out" by (simp add: wf_cube_def h' out length_T_reshape)
  show ?thesis using call xsp spec wf out(2) assms(3) by auto
qed

theorem baseline_cube_pixelwise_witness:
  "cshape cube2_out = cshape cube2 \<and> wf_cube heap2_out cube2_out \<and>
   (\<exists>r. blfunc (demo_lib None)
           (Some \<lparr>dt = cdtype cube2,
                   vals = map (np_float (demo_lib None) (cdtype cube2)) [0..<2]\<rparr>)
           (Some 0) None 1
           (Plain \<lparr>dt = cdtype cube2,
                   vals = spectrum_at (fit_buffer heap2 cube2 (Some mask2)) (2, 1, 2) 0 1\<rparr>,
            \<lparr>dt = cdtype cube2,
               vals = spectrum_at (heap2 ! cbuf cube2) (2, 1, 2) 0 1\<rparr>) = Inr r \<and>
         spectrum_at (heap2_out ! cbuf cube2_out) (2, 1, 2) 0 1 = vals r)"
proof -
  have a: "wf_cube heap2 cube2"
    by (simp add: wf_cube_def heap2_def cube2_def)
  have b: "cshape cube2 = (2, 1, 2)"
    by (simp add: cube2_def)
  show ?thesis
    by (rule baseline_cube_pixelwise [OF baseline_cube_demo_run a b]) simp_all
qed

section \<open>The mask built by the baseline driver\<close>

lemma those_map_Some:
  "those (map f xs) = Some ys \<Longrightarrow> set ys = {y. \<exists>x\<in>set xs. f x = Some y}"
  by (induction xs arbitrary: ys) (auto split: option.splits)

lemma norm_index_Some:
  "c < S \<Longrightarrow> norm_index S i = Some c \<longleftrightarrow> (i = int c \<or> i = int c - int S)"
  by (auto simp: norm_index_def)

lemma norm_index_range: "norm_index S i = Some c \<Longrightarrow> c < S"
  by (auto simp: norm_index_def split: if_splits)

lemma selected_channels:
  assumes "those (map (norm_index S) index_clean) = Some chans" and "c < S"
  shows "c \<in> set chans \<longleftrightarrow> (int c \<in> set index_clean \<or> int c - int S \<in> set index_clean)"
  using those_map_Some [OF assms(1)] assms(2) by (auto simp: norm_index_Some)

lemma length_baseline_cubemask [simp]: "length (baseline_cubemask flat P chans) = length flat"
  by (simp add: baseline_cubemask_def Let_def)

lemma baseline_cubemask_nth:
  "i < length flat \<Longrightarrow>
   baseline_cubemask flat P chans ! i =
     ((i div P \<notin> set chans \<and> isfinite (flat ! i)) \<or> isnan (flat ! i))"
  by (simp add: baseline_cubemask_def Let_def)

lemma isfinite_not_nan: "isfinite v \<Longrightarrow> \<not> isnan v"
  by (cases v) simp_all

lemma apply_mask_nth:
  "i < length flat \<Longrightarrow> length m = length flat \<Longrightarrow>
   apply_mask flat m ! i = (if m ! i then NaN else flat ! i)"
  by (simp add: apply_mask_def)

lemma channel_of_index: "p < (n::nat) \<Longrightarrow> (c * n + p) div n = c"
  by simp

lemma baseline_cubemask_infinite:
  "i < length flat \<Longrightarrow> \<not> isfinite (flat ! i) \<Longrightarrow> \<not> isnan (flat ! i) \<Longrightarrow>
   \<not> baseline_cubemask flat P chans ! i"
  by (simp add: baseline_cubemask_nth)

lemma baseline_unfold:
  assumes "cshape cube = (S, Y, X)"
    and "those (map (norm_index S) index_clean) = Some chans"
  shows "baseline lib h sched cube polyorder index_clean =
     baseline_cube lib h cube polyorder
       (Some \<lparr>mdtype = Bool, mshape = [S, Y, X],
              mdata = baseline_cubemask (h ! cbuf cube) (Y * X) chans\<rparr>)
       None sched 1"
  using assms by (simp add: baseline_def Let_def)

text \<open>
  What the mask built by \<^verbatim>\<open>baseline\<close> does to the spectrum that decides the fit of a
  pixel: the sample of a channel is good for \<^verbatim>\<open>blfunc\<close> if and only if the channel is
  selected and the sample of the cube is finite.
\<close>

lemma fit_admission_of_baseline_mask:
  assumes "wf_cube h cube" and "cshape cube = (S, Y, X)"
    and "those (map (norm_index S) index_clean) = Some chans"
    and "c < S" and "p < Y * X"
  shows "good_mask (Plain (reshape_T (cdtype cube) S (Y * X)
           (fit_buffer h cube
              (Some \<lparr>mdtype = Bool, mshape = [S, Y, X],
                     mdata = baseline_cubemask (h ! cbuf cube) (Y * X) chans\<rparr>)) ! p)) ! c
         \<longleftrightarrow> ((int c \<in> set index_clean \<or> int c - int S \<in> set index_clean) \<and>
              isfinite (h ! cbuf cube ! (c * (Y * X) + p)))"
proof -
  let ?flat = "h ! cbuf cube"
  let ?m = "baseline_cubemask ?flat (Y * X) chans"
  let ?i = "c * (Y * X) + p"
  have len: "length ?flat = S * (Y * X)" using assms(1,2) by (simp add: wf_cube_def)
  have i: "?i < length ?flat" using grid_index [OF assms(4,5)] len by simp
  have chan: "?i div (Y * X) = c" using assms(5) by (rule channel_of_index)
  have "good_mask (Plain (reshape_T (cdtype cube) S (Y * X) (apply_mask ?flat ?m) ! p)) ! c
      = isfinite (apply_mask ?flat ?m ! ?i)"
    using assms(4,5) by (simp add: good_mask_def reshape_T_nth)
  also have "\<dots> = (\<not> ?m ! ?i \<and> isfinite (?flat ! ?i))"
    using i by (simp add: apply_mask_nth)
  also have "\<dots> = (c \<in> set chans \<and> isfinite (?flat ! ?i))"
    using i chan isfinite_not_nan [of "?flat ! ?i"] by (auto simp: baseline_cubemask_nth)
  also have "\<dots> = ((int c \<in> set index_clean \<or> int c - int S \<in> set index_clean) \<and> isfinite (?flat ! ?i))"
    using selected_channels [OF assms(3,4)] by simp
  finally show ?thesis by (simp add: fit_buffer_def)
qed

lemma baseline_cubemask_unmasked:
  assumes "i < length flat"
  shows "(\<not> baseline_cubemask flat P chans ! i) =
     ((i div P \<in> set chans \<and> isfinite (flat ! i)) \<or> isinf (flat ! i))"
  using assms by (cases "flat ! i") (simp_all add: baseline_cubemask_nth)

text \<open>
  Claim C10, as amended. For a selection \<open>index_clean\<close> within the spectral axis
  (negative indices count from its end), \<^verbatim>\<open>baseline\<close> hands to \<^verbatim>\<open>baseline_cube\<close> a
  boolean mask of the shape of the cube that leaves a sample unmasked if and only if
  its channel is selected and its value is finite, or its value is infinite: the mask
  excludes the not-a-number samples and the finite samples of the channels outside the
  selection, not the infinite samples. A sample enters the fit if and only if its channel
  is selected and its value is finite: the infinite samples are excluded by the
  finiteness test of \<^verbatim>\<open>blfunc\<close>.
\<close>

theorem baseline_mask_admission:
  assumes "wf_cube h cube" and "cshape cube = (S, Y, X)"
    and "those (map (norm_index S) index_clean) = Some chans"
  shows "baseline lib h sched cube polyorder index_clean =
      baseline_cube lib h cube polyorder
        (Some \<lparr>mdtype = Bool, mshape = [S, Y, X],
               mdata = baseline_cubemask (h ! cbuf cube) (Y * X) chans\<rparr>)
        None sched 1 \<and>
    length (baseline_cubemask (h ! cbuf cube) (Y * X) chans) = S * (Y * X) \<and>
    (\<forall>c<S. \<forall>p<Y * X.
       (\<not> baseline_cubemask (h ! cbuf cube) (Y * X) chans ! (c * (Y * X) + p)) =
         (((int c \<in> set index_clean \<or> int c - int S \<in> set index_clean) \<and>
           isfinite (h ! cbuf cube ! (c * (Y * X) + p))) \<or>
          isinf (h ! cbuf cube ! (c * (Y * X) + p))) \<and>
       good_mask (Plain (reshape_T (cdtype cube) S (Y * X)
           (fit_buffer h cube
              (Some \<lparr>mdtype = Bool, mshape = [S, Y, X],
                     mdata = baseline_cubemask (h ! cbuf cube) (Y * X) chans\<rparr>)) ! p)) ! c =
         ((int c \<in> set index_clean \<or> int c - int S \<in> set index_clean) \<and>
          isfinite (h ! cbuf cube ! (c * (Y * X) + p))))"
proof (intro conjI allI impI)
  show "baseline lib h sched cube polyorder index_clean =
      baseline_cube lib h cube polyorder
        (Some \<lparr>mdtype = Bool, mshape = [S, Y, X],
               mdata = baseline_cubemask (h ! cbuf cube) (Y * X) chans\<rparr>)
        None sched 1"
    using assms(2,3) by (rule baseline_unfold)
next
  show "length (baseline_cubemask (h ! cbuf cube) (Y * X) chans) = S * (Y * X)"
    using assms(1,2) by (simp add: wf_cube_def)
next
  fix c p assume c: "c < S" and p: "p < Y * X"
  have len: "length (h ! cbuf cube) = S * (Y * X)"
    using assms(1,2) by (simp add: wf_cube_def)
  have i: "c * (Y * X) + p < length (h ! cbuf cube)"
    using grid_index [OF c p] len by simp
  have chan: "(c * (Y * X) + p) div (Y * X) = c"
    using p by (rule channel_of_index)
  show "(\<not> baseline_cubemask (h ! cbuf cube) (Y * X) chans ! (c * (Y * X) + p)) =
         (((int c \<in> set index_clean \<or> int c - int S \<in> set index_clean) \<and>
           isfinite (h ! cbuf cube ! (c * (Y * X) + p))) \<or>
          isinf (h ! cbuf cube ! (c * (Y * X) + p)))"
    using baseline_cubemask_unmasked [OF i, of "Y * X" chans] selected_channels [OF assms(3) c]
    by (simp add: chan)
next
  fix c p assume c: "c < S" and p: "p < Y * X"
  show "good_mask (Plain (reshape_T (cdtype cube) S (Y * X)
           (fit_buffer h cube
              (Some \<lparr>mdtype = Bool, mshape = [S, Y, X],
                     mdata = baseline_cubemask (h ! cbuf cube) (Y * X) chans\<rparr>)) ! p)) ! c =
         ((int c \<in> set index_clean \<or> int c - int S \<in> set index_clean) \<and>
          isfinite (h ! cbuf cube ! (c * (Y * X) + p)))"
    using fit_admission_of_baseline_mask [OF assms c p] .
qed

theorem baseline_mask_admission_witness:
  "baseline (demo_lib None) heap3 [] cube3 (Some 0) [1] =
      baseline_cube (demo_lib None) heap3 cube3 (Some 0)
        (Some \<lparr>mdtype = Bool, mshape = [2, 1, 1],
               mdata = baseline_cubemask (heap3 ! cbuf cube3) (1 * 1) [1]\<rparr>)
        None [] 1 \<and>
    length (baseline_cubemask (heap3 ! cbuf cube3) (1 * 1) [1]) = 2 * (1 * 1) \<and>
    (\<not> baseline_cubemask (heap3 ! cbuf cube3) (1 * 1) [1] ! (0 * (1 * 1) + 0)) =
      (((int 0 \<in> set [1] \<or> int 0 - int 2 \<in> set [1]) \<and>
        isfinite (heap3 ! cbuf cube3 ! (0 * (1 * 1) + 0))) \<or>
       isinf (heap3 ! cbuf cube3 ! (0 * (1 * 1) + 0))) \<and>
    good_mask (Plain (reshape_T (cdtype cube3) 2 (1 * 1)
        (fit_buffer heap3 cube3
           (Some \<lparr>mdtype = Bool, mshape = [2, 1, 1],
                  mdata = baseline_cubemask (heap3 ! cbuf cube3) (1 * 1) [1]\<rparr>)) ! 0)) ! 0 =
      ((int 0 \<in> set [1] \<or> int 0 - int 2 \<in> set [1]) \<and>
       isfinite (heap3 ! cbuf cube3 ! (0 * (1 * 1) + 0)))"
proof -
  have a: "wf_cube heap3 cube3"
    by (simp add: wf_cube_def heap3_def cube3_def)
  have b: "cshape cube3 = (2, 1, 1)"
    by (simp add: cube3_def)
  have c: "those (map (norm_index 2) [1]) = Some [1]"
    by (simp add: norm_index_def)
  have z: "(0::nat) < 2" "(0::nat) < 1 * 1"
    by simp_all
  note inst = baseline_mask_admission [OF a b c,
      where lib = "demo_lib None" and sched = "[]" and polyorder = "Some 0"]
  show ?thesis
    using inst [THEN conjunct1] inst [THEN conjunct2, THEN conjunct1]
      inst [THEN conjunct2, THEN conjunct2, rule_format, OF z]
    by blast
qed

text \<open>
  The claim C10 as stated fails on an infinite sample. In \<open>cube3\<close> with the selection
  \<open>[1]\<close>, the sample of channel 0 is infinite and its channel is not selected, and the
  mask that \<^verbatim>\<open>baseline\<close> builds and hands on leaves it unmasked.
\<close>

theorem baseline_mask_admission_counterexample:
  "heap3 ! cbuf cube3 ! 0 = PInf \<and> (0::nat) \<notin> set [1] \<and>
   baseline_cubemask (heap3 ! cbuf cube3) (1 * 1) [1] = [False, False] \<and>
   baseline (demo_lib None) heap3 [] cube3 (Some 0) [1] =
     baseline_cube (demo_lib None) heap3 cube3 (Some 0)
       (Some \<lparr>mdtype = Bool, mshape = [2, 1, 1], mdata = [False, False]\<rparr>) None [] 1"
  by (simp add: heap3_def cube3_def baseline_def baseline_cubemask_def norm_index_def Let_def)

end
